theory Spec2Isabelle
  imports Main "HOL-Library.Word"
begin

section \<open>JavaScript values\<close>

text \<open>
  A JavaScript string is a sequence of UTF-16 code units and \<open>length\<close> counts code
  units, so strings are lists of 16-bit words. \<open>js\<close> writes an ASCII literal.
\<close>

type_synonym jsstring = "16 word list"

definition js :: "string \<Rightarrow> jsstring" where
  "js s = map (\<lambda>c. of_nat (of_char c)) s"

text \<open>A value of TypeScript type \<open>T\<close> that may also be \<open>undefined\<close> or \<open>null\<close>.\<close>

datatype 'a nullable = Undefined | Null | Val 'a

text \<open>Truthiness of a string-valued expression: \<open>if (s)\<close> and \<open>!!s\<close>.\<close>

fun truthyString :: "jsstring nullable \<Rightarrow> bool" where
  "truthyString Undefined = False"
| "truthyString Null = False"
| "truthyString (Val s) = (s \<noteq> [])"

text \<open>
  The white space and line terminator code units that \<open>String.prototype.trim\<close> strips.
\<close>

definition isWhiteSpace :: "16 word \<Rightarrow> bool" where
  "isWhiteSpace c =
     (c \<in> {0x0009, 0x000A, 0x000B, 0x000C, 0x000D, 0x0020, 0x00A0, 0x1680,
            0x2028, 0x2029, 0x202F, 0x205F, 0x3000, 0xFEFF}
      \<or> (0x2000 \<le> c \<and> c \<le> 0x200A))"

definition trim :: "jsstring \<Rightarrow> jsstring" where
  "trim s = rev (dropWhile isWhiteSpace (rev (dropWhile isWhiteSpace s)))"

section \<open>Errors\<close>

text \<open>
  Every exception the modelled code throws is an \<open>Error\<close> object (or the engine's
  \<open>TypeError\<close> on a property read of \<open>undefined\<close>); they differ by message. The
  constructors name the message: the contract that failed, or the entry of
  \<open>ConversationTranslatorConfig.strings\<close> the message is built from.
\<close>

datatype error =
    ObjectDisposed
  | NullOrUndefined string
  | NullOrWhitespace string
  | TypeError
  | PermissionDeniedConversation string
  | PermissionDeniedParticipant string
  | PermissionDeniedSend
  | InvalidArgs string
  | InvalidParticipantRequest

text \<open>
  Modelled from the spec: the \<open>Contracts\<close> helpers are not among the sources. A
  contract either returns or throws; \<open>throwIfNullOrWhitespace\<close> rejects an absent
  value and a string that is empty after trimming, \<open>throwIfNullOrUndefined\<close> an absent
  value, \<open>throwIfDisposed\<close> a set disposal flag.
\<close>

definition throwIfDisposed :: "bool \<Rightarrow> error + unit" where
  "throwIfDisposed isDisposed = (if isDisposed then Inl ObjectDisposed else Inr ())"

fun throwIfNullOrUndefined :: "'a nullable \<Rightarrow> string \<Rightarrow> error + unit" where
  "throwIfNullOrUndefined Undefined name = Inl (NullOrUndefined name)"
| "throwIfNullOrUndefined Null name = Inl (NullOrUndefined name)"
| "throwIfNullOrUndefined (Val v) name = Inr ()"

fun throwIfNullOrWhitespace :: "jsstring nullable \<Rightarrow> string \<Rightarrow> error + unit" where
  "throwIfNullOrWhitespace Undefined name = Inl (NullOrUndefined name)"
| "throwIfNullOrWhitespace Null name = Inl (NullOrUndefined name)"
| "throwIfNullOrWhitespace (Val s) name =
     (if length (trim s) < 1 then Inl (NullOrWhitespace name) else Inr ())"

section \<open>Property collection\<close>

datatype PropertyId =
    SpeechServiceConnection_RecoLanguage
  | SpeechServiceConnection_Key
  | SpeechServiceConnection_Region
  | SpeechServiceAuthorization_Token
  | ConversationTranslator_Name
  | ConversationTranslator_Host
  | ConversationTranslator_CorrelationId

text \<open>
  Modelled from the spec: \<open>PropertyCollection\<close> is not among the sources. It is a
  keyed store of settings: \<open>getProperty\<close> returns the value stored under the key, or the
  default (\<open>undefined\<close> when none is given) when the key is absent; \<open>setProperty\<close>
  overwrites the value of an existing key or appends the pair.
\<close>

type_synonym PropertyCollection = "(PropertyId \<times> jsstring nullable) list"

definition getProperty ::
  "PropertyCollection \<Rightarrow> PropertyId \<Rightarrow> jsstring nullable \<Rightarrow> jsstring nullable" where
  "getProperty props key def = (case map_of props key of None \<Rightarrow> def | Some v \<Rightarrow> v)"

definition setProperty ::
  "PropertyCollection \<Rightarrow> PropertyId \<Rightarrow> jsstring nullable \<Rightarrow> PropertyCollection" where
  "setProperty props key v =
     (if key \<in> fst ` set props
      then map (\<lambda>(k, w). if k = key then (k, v) else (k, w)) props
      else props @ [(key, v)])"

section \<open>ConversationImpl: the constructor's nickname check\<close>

text \<open>
  The part of the constructor that reads the nickname from the speech config, replaces
  it by \<open>"Host"\<close> when it is \<open>undefined\<close>, \<open>null\<close>, no longer than one code unit or
  longer than fifty, and stores it back.
\<close>

definition checkNickname :: "jsstring nullable \<Rightarrow> jsstring" where
  "checkNickname hostNickname =
     (case hostNickname of
        Undefined \<Rightarrow> js ''Host''
      | Null \<Rightarrow> js ''Host''
      | Val n \<Rightarrow> if length n \<le> 1 \<or> length n > 50 then js ''Host'' else n)"

definition constructorNickname :: "PropertyCollection \<Rightarrow> PropertyCollection" where
  "constructorNickname speechConfig =
     (let hostNickname = getProperty speechConfig ConversationTranslator_Name Undefined
      in setProperty speechConfig ConversationTranslator_Name (Val (checkNickname hostNickname)))"

section \<open>Participant registry\<close>

text \<open>
  Every field of \<open>IInternalParticipant\<close> is optional: the dispatcher builds a leaving
  participant from an id alone. \<open>None\<close> is \<open>undefined\<close>.
\<close>

record IInternalParticipant =
  id' :: "jsstring option"
  displayName :: "jsstring option"
  isHost :: "bool option"
  isMuted :: "bool option"

record InternalParticipants =
  participants :: "IInternalParticipant list"
  meId :: "jsstring option"

text \<open>
  Modelled from the spec: the registry class is not among the sources. \<open>me\<close> looks the
  participant up by the registry's stored local id; \<open>getParticipantIndex\<close>, further
  down, is the position of the id, or \<open>-1\<close>.
\<close>

definition getParticipant ::
  "InternalParticipants \<Rightarrow> jsstring option \<Rightarrow> IInternalParticipant option" where
  "getParticipant ps i = find (\<lambda>p. id' p = i) (participants ps)"

definition me :: "InternalParticipants \<Rightarrow> IInternalParticipant option" where
  "me ps = getParticipant ps (meId ps)"

text \<open>Truthiness of an optional boolean: \<open>undefined\<close> is falsy.\<close>

fun truthyBool :: "bool option \<Rightarrow> bool" where
  "truthyBool None = False"
| "truthyBool (Some b) = b"

section \<open>ConversationManager.createOrJoin\<close>

text \<open>
  The manager's fields are copied from \<open>ConversationConnectionConfig\<close> by its
  constructor; that class is not among the sources, so the host, the api version, the
  rest path, the client application id and the default language code are taken as they
  come, as fields of the manager record.
\<close>

record ConversationManager =
  privHost :: "jsstring nullable"
  privApiVersion :: jsstring
  privRestPath :: jsstring
  clientAppId :: jsstring
  defaultLanguageCode :: "jsstring nullable"

text \<open>The names of \<open>privRequestParams\<close> used as query parameters and as headers.\<close>

datatype queryParam = apiVersionParam | languageCodeParam | nicknameParam | roomIdParam

datatype header =
    correlationIdHeader
  | clientAppIdHeader
  | subscriptionRegionHeader
  | subscriptionKeyHeader
  | authorizationHeader

record restRequest =
  endpoint :: jsstring
  queryParams :: "(queryParam \<times> jsstring nullable) list"
  headers :: "(header \<times> jsstring) list"

text \<open>
  String conversion in a template literal or a concatenation: \<open>`${v}`\<close>.
\<close>

fun toString :: "jsstring nullable \<Rightarrow> jsstring" where
  "toString Undefined = js ''undefined''"
| "toString Null = js ''null''"
| "toString (Val s) = s"

text \<open>
  The body of the \<open>try\<close> block of \<open>createOrJoin\<close> up to the call of \<open>request\<close>: the
  result is the exception thrown, or the POST request handed to \<open>request\<close>.
  \<open>conversationCode\<close> is \<open>Undefined\<close> when a conversation is created.
\<close>

definition createOrJoin_request ::
  "ConversationManager \<Rightarrow> PropertyCollection nullable \<Rightarrow> jsstring nullable \<Rightarrow>
     error + restRequest" where
  "createOrJoin_request m args conversationCode =
     (case args of
        Undefined \<Rightarrow> Inl (NullOrUndefined ''args'')
      | Null \<Rightarrow> Inl (NullOrUndefined ''args'')
      | Val props \<Rightarrow>
     (let languageCode = getProperty props SpeechServiceConnection_RecoLanguage (defaultLanguageCode m);
          nickname = getProperty props ConversationTranslator_Name Undefined;
          endpointHost = getProperty props ConversationTranslator_Host (privHost m);
          correlationId = getProperty props ConversationTranslator_CorrelationId Undefined;
          subscriptionKey = getProperty props SpeechServiceConnection_Key Undefined;
          subscriptionRegion = getProperty props SpeechServiceConnection_Region Undefined;
          authToken = getProperty props SpeechServiceAuthorization_Token Undefined
      in
      case throwIfNullOrWhitespace languageCode ''languageCode'' of Inl e \<Rightarrow> Inl e | Inr _ \<Rightarrow>
      case throwIfNullOrWhitespace nickname ''nickname'' of Inl e \<Rightarrow> Inl e | Inr _ \<Rightarrow>
      case throwIfNullOrWhitespace endpointHost ''endpointHost'' of Inl e \<Rightarrow> Inl e | Inr _ \<Rightarrow>
      (let queryParams0 = [(apiVersionParam, Val (privApiVersion m)),
                           (languageCodeParam, languageCode),
                           (nicknameParam, nickname)];
           headers0 = (if truthyString correlationId
                       then [(correlationIdHeader, toString correlationId)] else [])
                      @ [(clientAppIdHeader, clientAppId m)];
           url = js ''https://'' @ toString endpointHost @ privRestPath m
       in
       if conversationCode \<noteq> Undefined then
         Inr \<lparr>endpoint = url,
              queryParams = queryParams0 @ [(roomIdParam, conversationCode)],
              headers = headers0\<rparr>
       else
         case throwIfNullOrUndefined subscriptionRegion ''authInvalidSubscriptionRegion'' of
           Inl e \<Rightarrow> Inl e
         | Inr _ \<Rightarrow>
         (let headers1 = headers0 @ [(subscriptionRegionHeader, toString subscriptionRegion)]
          in
          if truthyString subscriptionKey then
            Inr \<lparr>endpoint = url, queryParams = queryParams0,
                 headers = headers1 @ [(subscriptionKeyHeader, toString subscriptionKey)]\<rparr>
          else if truthyString authToken then
            Inr \<lparr>endpoint = url, queryParams = queryParams0,
                 headers = headers1 @ [(authorizationHeader, js ''Bearer '' @ toString authToken)]\<rparr>
          else
            case throwIfNullOrUndefined subscriptionKey ''authInvalidSubscriptionKey'' of
              Inl e \<Rightarrow> Inl e
            | Inr _ \<Rightarrow> Inr \<lparr>endpoint = url, queryParams = queryParams0, headers = headers1\<rparr>))))"

text \<open>
  What \<open>createOrJoin\<close> does before it returns: it issues the POST request, or the
  \<open>catch\<close> block passes the exception to the failure continuation \<open>err\<close> when one was
  supplied. The response arrives later and is not part of this step.
\<close>

datatype managerEffect = Post restRequest | ErrorCallback error

definition createOrJoin ::
  "ConversationManager \<Rightarrow> PropertyCollection nullable \<Rightarrow> jsstring nullable \<Rightarrow> bool \<Rightarrow>
     managerEffect list" where
  "createOrJoin m args conversationCode err =
     (case createOrJoin_request m args conversationCode of
        Inr req \<Rightarrow> [Post req]
      | Inl error \<Rightarrow> if err then [ErrorCallback error] else [])"

text \<open>
  The errors thrown by the contracts on settings: a required setting is absent, or
  empty after trimming.
\<close>

fun isConfigurationError :: "error \<Rightarrow> bool" where
  "isConfigurationError (NullOrUndefined name) = True"
| "isConfigurationError (NullOrWhitespace name) = True"
| "isConfigurationError e = False"

text \<open>A setting that is absent, empty or white space only.\<close>

fun isNullOrWhitespace :: "jsstring nullable \<Rightarrow> bool" where
  "isNullOrWhitespace Undefined = True"
| "isNullOrWhitespace Null = True"
| "isNullOrWhitespace (Val s) = (trim s = [])"

section \<open>ConversationImpl\<close>

record IInternalConversation =
  roomId :: jsstring
  token :: "jsstring nullable"
  participantId :: jsstring

text \<open>
  Of the recognizer, the facade reads the disposal flag and calls the send methods; of
  the connection object it calls \<open>closeConnection\<close> and \<open>close\<close>.
\<close>

record ConversationTranslatorRecognizer =
  recognizerIsDisposed :: bool

datatype Connection = Connection

record ConversationImpl =
  privConfig :: "PropertyCollection option"
  privProperties :: "PropertyCollection option"
  privLanguage :: "jsstring option"
  privToken :: "jsstring option"
  privIsDisposed :: bool
  privRoom :: "IInternalConversation nullable"
  privManager :: "ConversationManager option"
  privConversationRecognizer :: "ConversationTranslatorRecognizer option"
  privConversationRecognizerConnection :: "Connection option"
  privIsConnected :: bool
  privParticipants :: "InternalParticipants option"
  privIsReady :: bool

text \<open>
  The command frames of the outbound wire protocol, and what a call of the facade does
  to the outside: it calls the failure continuation with an error, calls the success
  continuation, hands a frame to the connection, or closes a resource.
\<close>

datatype frame =
    SetLockState bool
  | SetMuteAll bool
  | SetMute jsstring bool
  | Eject jsstring
  | InstantMessage jsstring

datatype effect =
    Failure error
  | Success
  | Transmit frame
  | ConfigClose
  | ConnectionCloseConnection
  | ConnectionClose

text \<open>
  The optional continuations \<open>cb\<close> and \<open>err\<close> of a command: present or not. A
  continuation is the caller's code; it is taken not to throw.
\<close>

record callbacks =
  cb :: bool
  err :: bool

definition handleCallback :: "callbacks \<Rightarrow> effect list" where
  "handleCallback k = (if cb k then [Success] else [])"

definition handleError :: "error \<Rightarrow> callbacks \<Rightarrow> effect list" where
  "handleError error k = (if err k then [Failure error] else [])"

text \<open>
  Modelled from the spec: the recognizer's send methods are not among the sources.
  Transmission is fire-and-continue: the frame of the command is handed to the open
  connection and the success continuation passed by the facade (which is
  \<open>handleCallback\<close>) is called, without waiting for an acknowledgement.
\<close>

definition sendRequest :: "frame \<Rightarrow> callbacks \<Rightarrow> effect list" where
  "sendRequest f k = Transmit f # handleCallback k"

definition sendLockRequest :: "bool \<Rightarrow> callbacks \<Rightarrow> effect list" where
  "sendLockRequest isLocked k = sendRequest (SetLockState isLocked) k"

definition sendMuteAllRequest :: "bool \<Rightarrow> callbacks \<Rightarrow> effect list" where
  "sendMuteAllRequest muted k = sendRequest (SetMuteAll muted) k"

definition sendMuteRequest :: "jsstring \<Rightarrow> bool \<Rightarrow> callbacks \<Rightarrow> effect list" where
  "sendMuteRequest userId muted k = sendRequest (SetMute userId muted) k"

definition sendEjectRequest :: "jsstring \<Rightarrow> callbacks \<Rightarrow> effect list" where
  "sendEjectRequest userId k = sendRequest (Eject userId) k"

definition sendMessageRequest :: "jsstring \<Rightarrow> callbacks \<Rightarrow> effect list" where
  "sendMessageRequest message k = sendRequest (InstantMessage message) k"

subsection \<open>Accessors and permission gates\<close>

text \<open>
  \<open>me?.isHost\<close> and \<open>me?.isMuted\<close> are \<open>undefined\<close> when the local participant is
  not in the registry. Reading \<open>privParticipants.me\<close> throws a \<open>TypeError\<close> when the
  registry itself is \<open>undefined\<close>; \<open>&&\<close> does not evaluate its right operand when the
  left one is false.
\<close>

definition isMutedByHost :: "ConversationImpl \<Rightarrow> error + bool option" where
  "isMutedByHost c =
     (case privParticipants c of
        None \<Rightarrow> Inl TypeError
      | Some ps \<Rightarrow>
          Inr (if truthyBool (Option.bind (me ps) isHost) then Some False
               else Option.bind (me ps) isMuted))"

definition canSend :: "ConversationImpl \<Rightarrow> error + bool" where
  "canSend c =
     (if \<not> privIsConnected c then Inr False
      else case privParticipants c of
             None \<Rightarrow> Inl TypeError
           | Some ps \<Rightarrow> Inr (\<not> truthyBool (Option.bind (me ps) isMuted)))"

definition canSendAsHost :: "ConversationImpl \<Rightarrow> error + bool" where
  "canSendAsHost c =
     (if \<not> privIsConnected c then Inr False
      else case privParticipants c of
             None \<Rightarrow> Inl TypeError
           | Some ps \<Rightarrow> Inr (truthyBool (Option.bind (me ps) isHost)))"

text \<open>
  The getter \<open>this.me\<close> builds a \<open>Participant\<close> from the registry's local participant;
  the read of \<open>p.id\<close> throws when there is none.
\<close>

definition toParticipant :: "IInternalParticipant option \<Rightarrow> error + IInternalParticipant" where
  "toParticipant p = (case p of None \<Rightarrow> Inl TypeError | Some q \<Rightarrow> Inr q)"

definition getMe :: "ConversationImpl \<Rightarrow> error + IInternalParticipant" where
  "getMe c = (case privParticipants c of None \<Rightarrow> Inl TypeError | Some ps \<Rightarrow> toParticipant (me ps))"

text \<open>\<open>Array.prototype.findIndex\<close>: the first position that satisfies the test, or \<open>-1\<close>.\<close>

fun findIndex :: "('a \<Rightarrow> bool) \<Rightarrow> 'a list \<Rightarrow> int" where
  "findIndex P [] = - 1"
| "findIndex P (x # xs) =
     (if P x then 0 else (let r = findIndex P xs in if r = - 1 then - 1 else r + 1))"

definition getParticipantIndex :: "InternalParticipants \<Rightarrow> jsstring option \<Rightarrow> int" where
  "getParticipantIndex ps i = findIndex (\<lambda>p. id' p = i) (participants ps)"

subsection \<open>Command methods\<close>

text \<open>
  Each command method is one \<open>try\<close> block whose \<open>catch\<close> passes the exception to
  \<open>handleError\<close>. A contract that fails throws and so ends the method. \<open>handleError\<close>
  called directly after a failed gate does not throw: the method goes on with the next
  statement. The result lists what the call did, in order.
  \<open>muteAllParticipantsAsync\<close> also checks the recognizer with \<open>throwIfNullOrUndefined\<close>
  after it has read the recognizer's disposal flag; that contract cannot fail there.
\<close>

definition lockConversationAsync :: "callbacks \<Rightarrow> ConversationImpl \<Rightarrow> effect list" where
  "lockConversationAsync k c =
     (case throwIfDisposed (privIsDisposed c) of Inl e \<Rightarrow> handleError e k | Inr _ \<Rightarrow>
      case privConversationRecognizer c of None \<Rightarrow> handleError TypeError k | Some r \<Rightarrow>
      case throwIfDisposed (recognizerIsDisposed r) of Inl e \<Rightarrow> handleError e k | Inr _ \<Rightarrow>
      case throwIfNullOrUndefined (privRoom c) ''permissionDeniedSend'' of
        Inl e \<Rightarrow> handleError e k | Inr _ \<Rightarrow>
      case canSendAsHost c of Inl e \<Rightarrow> handleError e k | Inr ok \<Rightarrow>
        (if \<not> ok then handleError (PermissionDeniedConversation ''lock'') k else [])
        @ sendLockRequest True k)"

definition muteAllParticipantsAsync :: "callbacks \<Rightarrow> ConversationImpl \<Rightarrow> effect list" where
  "muteAllParticipantsAsync k c =
     (case throwIfDisposed (privIsDisposed c) of Inl e \<Rightarrow> handleError e k | Inr _ \<Rightarrow>
      case privConversationRecognizer c of None \<Rightarrow> handleError TypeError k | Some r \<Rightarrow>
      case throwIfDisposed (recognizerIsDisposed r) of Inl e \<Rightarrow> handleError e k | Inr _ \<Rightarrow>
      case throwIfNullOrUndefined (privRoom c) ''permissionDeniedSend'' of
        Inl e \<Rightarrow> handleError e k | Inr _ \<Rightarrow>
      case canSendAsHost c of Inl e \<Rightarrow> handleError e k | Inr ok \<Rightarrow>
        (if \<not> ok then handleError (PermissionDeniedConversation ''mute'') k else [])
        @ sendMuteAllRequest True k)"

definition unlockConversationAsync :: "callbacks \<Rightarrow> ConversationImpl \<Rightarrow> effect list" where
  "unlockConversationAsync k c =
     (case throwIfDisposed (privIsDisposed c) of Inl e \<Rightarrow> handleError e k | Inr _ \<Rightarrow>
      case privConversationRecognizer c of None \<Rightarrow> handleError TypeError k | Some r \<Rightarrow>
      case throwIfDisposed (recognizerIsDisposed r) of Inl e \<Rightarrow> handleError e k | Inr _ \<Rightarrow>
      case throwIfNullOrUndefined (privRoom c) ''permissionDeniedSend'' of
        Inl e \<Rightarrow> handleError e k | Inr _ \<Rightarrow>
      case canSendAsHost c of Inl e \<Rightarrow> handleError e k | Inr ok \<Rightarrow>
        (if \<not> ok then handleError (PermissionDeniedConversation ''unlock'') k else [])
        @ sendLockRequest False k)"

definition unmuteAllParticipantsAsync :: "callbacks \<Rightarrow> ConversationImpl \<Rightarrow> effect list" where
  "unmuteAllParticipantsAsync k c =
     (case throwIfDisposed (privIsDisposed c) of Inl e \<Rightarrow> handleError e k | Inr _ \<Rightarrow>
      case privConversationRecognizer c of None \<Rightarrow> handleError TypeError k | Some r \<Rightarrow>
      case throwIfDisposed (recognizerIsDisposed r) of Inl e \<Rightarrow> handleError e k | Inr _ \<Rightarrow>
      case throwIfNullOrUndefined (privRoom c) ''permissionDeniedSend'' of
        Inl e \<Rightarrow> handleError e k | Inr _ \<Rightarrow>
      case canSendAsHost c of Inl e \<Rightarrow> handleError e k | Inr ok \<Rightarrow>
        (if \<not> ok then handleError (PermissionDeniedConversation ''unmute all'') k else [])
        @ sendMuteAllRequest False k)"

text \<open>
  \<open>muteParticipantAsync\<close> and \<open>unmuteParticipantAsync\<close> differ in the flag they send;
  both name the command \<open>mute\<close> in the permission message. The two reads of \<open>this.me\<close>
  throw when the local participant is not in the registry, after the failure
  continuation may already have been called for the send gate.
\<close>

definition muteRequest ::
  "bool \<Rightarrow> jsstring nullable \<Rightarrow> callbacks \<Rightarrow> ConversationImpl \<Rightarrow> effect list" where
  "muteRequest muted userId k c =
     (case throwIfDisposed (privIsDisposed c) of Inl e \<Rightarrow> handleError e k | Inr _ \<Rightarrow>
      case privConversationRecognizer c of None \<Rightarrow> handleError TypeError k | Some r \<Rightarrow>
      case throwIfDisposed (recognizerIsDisposed r) of Inl e \<Rightarrow> handleError e k | Inr _ \<Rightarrow>
      case throwIfNullOrWhitespace userId ''userId'' of Inl e \<Rightarrow> handleError e k | Inr _ \<Rightarrow>
      case throwIfNullOrUndefined (privRoom c) ''permissionDeniedSend'' of
        Inl e \<Rightarrow> handleError e k | Inr _ \<Rightarrow>
      case canSend c of Inl e \<Rightarrow> handleError e k | Inr ok \<Rightarrow>
        (if \<not> ok then handleError PermissionDeniedSend k else [])
        @ (case getMe c of Inl e \<Rightarrow> handleError e k | Inr m \<Rightarrow>
            (if \<not> truthyBool (isHost m) \<and> id' m \<noteq> Some (toString userId)
             then handleError (PermissionDeniedParticipant ''mute'') k else [])
            @ (case privParticipants c of None \<Rightarrow> handleError TypeError k | Some ps \<Rightarrow>
                (if getParticipantIndex ps (Some (toString userId)) = - 1
                 then handleError InvalidParticipantRequest k else [])
                @ sendMuteRequest (toString userId) muted k)))"

definition muteParticipantAsync ::
  "jsstring nullable \<Rightarrow> callbacks \<Rightarrow> ConversationImpl \<Rightarrow> effect list" where
  "muteParticipantAsync userId k c = muteRequest True userId k c"

definition unmuteParticipantAsync ::
  "jsstring nullable \<Rightarrow> callbacks \<Rightarrow> ConversationImpl \<Rightarrow> effect list" where
  "unmuteParticipantAsync userId k c = muteRequest False userId k c"

text \<open>
  The argument of \<open>removeParticipantAsync\<close>: a string, or an object that may own an
  \<open>id\<close> or a \<open>userId\<close> property. The participant id starts as the empty string.
\<close>

datatype userIdArg =
    UserIdString jsstring
  | UserObject "jsstring nullable option" "jsstring nullable option"

fun participantIdOf :: "userIdArg \<Rightarrow> jsstring nullable" where
  "participantIdOf (UserIdString s) = Val s"
| "participantIdOf (UserObject (Some i) u) = i"
| "participantIdOf (UserObject None (Some u)) = u"
| "participantIdOf (UserObject None None) = Val []"

definition removeParticipantAsync ::
  "userIdArg \<Rightarrow> callbacks \<Rightarrow> ConversationImpl \<Rightarrow> effect list" where
  "removeParticipantAsync userId k c =
     (case throwIfDisposed (privIsDisposed c) of Inl e \<Rightarrow> handleError e k | Inr _ \<Rightarrow>
      case privConversationRecognizer c of None \<Rightarrow> handleError TypeError k | Some r \<Rightarrow>
      case throwIfDisposed (recognizerIsDisposed r) of Inl e \<Rightarrow> handleError e k | Inr _ \<Rightarrow>
      case throwIfNullOrUndefined (privRoom c) ''permissionDeniedSend'' of
        Inl e \<Rightarrow> handleError e k | Inr _ \<Rightarrow>
      case canSendAsHost c of Inl e \<Rightarrow> handleError e k | Inr ok \<Rightarrow>
        (if \<not> ok then handleError (PermissionDeniedParticipant ''remove'') k else [])
        @ (let participantId = participantIdOf userId in
           case throwIfNullOrWhitespace participantId ''userId'' of
             Inl e \<Rightarrow> handleError e k | Inr _ \<Rightarrow>
           case privParticipants c of None \<Rightarrow> handleError TypeError k | Some ps \<Rightarrow>
             (if findIndex (\<lambda>p. id' p = Some (toString participantId)) (participants ps) = - 1
              then handleError InvalidParticipantRequest k else [])
             @ sendEjectRequest (toString participantId) k))"

text \<open>
  \<open>textMessageMaxLength\<close> is a constant of \<open>ConversationTranslatorConfig\<close>, which is
  not among the sources: it is a parameter here.
\<close>

definition sendTextMessageAsync ::
  "nat \<Rightarrow> jsstring nullable \<Rightarrow> callbacks \<Rightarrow> ConversationImpl \<Rightarrow> effect list" where
  "sendTextMessageAsync textMessageMaxLength message k c =
     (case throwIfDisposed (privIsDisposed c) of Inl e \<Rightarrow> handleError e k | Inr _ \<Rightarrow>
      case privConversationRecognizer c of None \<Rightarrow> handleError TypeError k | Some r \<Rightarrow>
      case throwIfDisposed (recognizerIsDisposed r) of Inl e \<Rightarrow> handleError e k | Inr _ \<Rightarrow>
      case throwIfNullOrWhitespace message ''message'' of Inl e \<Rightarrow> handleError e k | Inr _ \<Rightarrow>
      case throwIfNullOrUndefined (privRoom c) ''permissionDeniedSend'' of
        Inl e \<Rightarrow> handleError e k | Inr _ \<Rightarrow>
      case canSend c of Inl e \<Rightarrow> handleError e k | Inr ok \<Rightarrow>
        (if \<not> ok then handleError PermissionDeniedSend k else [])
        @ (if length (toString message) > textMessageMaxLength
           then handleError (InvalidArgs ''message length'') k else [])
        @ sendMessageRequest (toString message) k)"

subsection \<open>dispose\<close>

text \<open>
  The values the guard of \<open>dispose\<close> can test. \<open>isDisposed\<close> is a method of the class:
  the call \<open>this.isDisposed()\<close> returns the flag, while the property read
  \<open>this.isDisposed\<close>, which is what the guard of \<open>dispose\<close> tests, is the function
  itself.
\<close>

datatype jsvalue = JSUndefined | JSBoolean bool | JSFunction

fun truthy :: "jsvalue \<Rightarrow> bool" where
  "truthy JSUndefined = False"
| "truthy (JSBoolean b) = b"
| "truthy JSFunction = True"

definition isDisposed :: "ConversationImpl \<Rightarrow> bool" where
  "isDisposed c = privIsDisposed c"

definition isDisposed_property :: "ConversationImpl \<Rightarrow> jsvalue" where
  "isDisposed_property c = JSFunction"

definition dispose :: "ConversationImpl \<Rightarrow> ConversationImpl \<times> effect list" where
  "dispose c =
     (if truthy (isDisposed_property c) then (c, [])
      else
        (c\<lparr>privIsDisposed := True,
           privConversationRecognizerConnection := None,
           privConfig := None,
           privLanguage := None,
           privProperties := None,
           privRoom := Undefined,
           privToken := None,
           privManager := None,
           privConversationRecognizer := None,
           privIsConnected := False,
           privIsReady := False,
           privParticipants := None\<rparr>,
         (case privConfig c of None \<Rightarrow> [] | Some cfg \<Rightarrow> [ConfigClose])
         @ (case privConversationRecognizerConnection c of
              None \<Rightarrow> []
            | Some conn \<Rightarrow> [ConnectionCloseConnection, ConnectionClose])))"

section \<open>ConversationServiceAdapter\<close>

text \<open>
  A promise of a connection is pending, settled (resolved with a connection or rejected
  with an error), or it follows another promise: a continuation that returns a promise
  makes the promise of the chain settle as the returned one does. Promises and
  connections are named by their position in the adapter's tables.
\<close>

datatype ConnectionState = StateNone | Connected | Connecting | Disconnected

datatype connectError =
    AuthFetchError jsstring
  | UnableToContactServer nat jsstring

datatype promise =
    Pending
  | Following nat
  | Resolved nat
  | Rejected connectError

text \<open>
  What the adapter does to its collaborators while connecting: the two ways of
  fetching a credential, the opening of a socket, the start of the receive loop, and
  the \<open>connectionOpened\<close> event raised on the connector.
\<close>

datatype action =
    Fetch
  | FetchOnExpiry
  | Open
  | MessageLoopStarted
  | ConnectionOpened

record ConversationServiceAdapter =
  privConversationIsDisposed :: bool
  terminateMessageLoop :: bool
  sessionId :: jsstring
  translationReceived :: bool
  connectionOpened :: bool
  privConversationConnectionPromise :: "nat option"
  promises :: "promise list"
  connections :: "ConnectionState list"
  actions :: "action list"

text \<open>
  \<open>result\<close> of a promise: a promise that follows another has the other's result. A
  chain of followers that never reaches a settled promise (it runs into a pending one,
  or in a circle) is not completed; the table's length bounds the walk.
\<close>

fun follow :: "nat \<Rightarrow> promise list \<Rightarrow> nat \<Rightarrow> promise" where
  "follow 0 ps p = Pending"
| "follow (Suc n) ps p =
     (if p < length ps
      then (case ps ! p of Following q \<Rightarrow> follow n ps q | r \<Rightarrow> r)
      else Pending)"

definition result :: "ConversationServiceAdapter \<Rightarrow> nat \<Rightarrow> promise" where
  "result a p = follow (length (promises a)) (promises a) p"

fun isCompleted :: "promise \<Rightarrow> bool" where
  "isCompleted (Resolved c) = True"
| "isCompleted (Rejected e) = True"
| "isCompleted r = False"

fun isError :: "promise \<Rightarrow> bool" where
  "isError (Rejected e) = True"
| "isError r = False"

text \<open>\<open>result().result.state()\<close> of a resolved promise: the connection's current state.\<close>

definition resultState :: "ConversationServiceAdapter \<Rightarrow> promise \<Rightarrow> ConnectionState option" where
  "resultState a r =
     (case r of
        Resolved c \<Rightarrow> if c < length (connections a) then Some (connections a ! c) else None
      | _ \<Rightarrow> None)"

text \<open>
  The existing promise is discarded when it is completed and either failed or resolved
  with a connection that has since disconnected.
\<close>

definition knownFailedOrDisconnected :: "ConversationServiceAdapter \<Rightarrow> nat \<Rightarrow> bool" where
  "knownFailedOrDisconnected a p =
     (isCompleted (result a p) \<and>
      (isError (result a p) \<or> resultState a (result a p) = Some Disconnected))"

text \<open>
  \<open>startMessageLoop\<close> clears the termination flag and starts the receive loop. The
  loop's first step asks for the connection through \<open>configConnection\<close>, which calls
  \<open>conversationConnectImpl\<close> again after the promise of the attempt has been stored.
\<close>

definition startMessageLoop :: "ConversationServiceAdapter \<Rightarrow> ConversationServiceAdapter" where
  "startMessageLoop a =
     a\<lparr>terminateMessageLoop := False, actions := actions a @ [MessageLoopStarted]\<rparr>"

text \<open>
  \<open>conversationConnectImpl\<close>, the part that runs before it returns: the coalescing
  guard, the call of the credential source, the creation and storing of the promise
  of the attempt, and the start of the receive loop. The credential and the socket's
  open response arrive in a later turn of the event loop; the continuation attached to
  them is \<open>connectContinuation\<close> below. The recursive call in the guard passes no
  argument, so \<open>isUnAuthorized\<close> takes its default \<open>false\<close>. The correlation ids are
  not modelled.
\<close>

function conversationConnectImpl ::
  "bool \<Rightarrow> ConversationServiceAdapter \<Rightarrow> nat \<times> ConversationServiceAdapter" where
  "conversationConnectImpl isUnAuthorized a =
     (case privConversationConnectionPromise a of
        Some p \<Rightarrow>
          if knownFailedOrDisconnected a p
          then conversationConnectImpl False
                 (a\<lparr>privConversationConnectionPromise := None, terminateMessageLoop := True\<rparr>)
          else (p, a)
      | None \<Rightarrow>
          (let p = length (promises a);
               a1 = a\<lparr>actions := actions a @ [if isUnAuthorized then FetchOnExpiry else Fetch],
                      promises := promises a @ [Pending],
                      privConversationConnectionPromise := Some p\<rparr>
           in (p, startMessageLoop a1)))"
  by pat_completeness auto
termination
  by (relation "measure (\<lambda>(u, a). if privConversationConnectionPromise a = None then 0 else 1)")
     auto

text \<open>
  What the attempt's continuation is called with: the credential fetch failed, or it
  succeeded and the socket answered the open with a status code and a reason.
\<close>

datatype attemptOutcome =
    AuthFailed jsstring
  | OpenResponse nat jsstring

text \<open>
  A continuation that returns promise \<open>q\<close> makes promise \<open>p\<close> settle as \<open>q\<close> does.
\<close>

definition settle :: "nat \<Rightarrow> promise \<Rightarrow> ConversationServiceAdapter \<Rightarrow> ConversationServiceAdapter" where
  "settle p r a = a\<lparr>promises := (promises a)[p := r]\<rparr>"

text \<open>
  Rejecting the promise of an attempt. The receive loop that the attempt started asks
  for its connection through \<open>configConnection\<close>, whose promise is derived from the
  promise of the attempt; when that rejects, the error handler of the loop sets the
  termination flag.
\<close>

definition rejectAttempt ::
  "nat \<Rightarrow> connectError \<Rightarrow> ConversationServiceAdapter \<Rightarrow> ConversationServiceAdapter" where
  "rejectAttempt p e a = (settle p (Rejected e) a)\<lparr>terminateMessageLoop := True\<rparr>"

text \<open>
  The continuation of the attempt whose promise is \<open>p\<close>. On a failed fetch it throws,
  which rejects the promise. Otherwise a connection is created and opened, and the
  open response decides: 200 resolves the promise with the connection and raises
  \<open>connectionOpened\<close> when a handler is set; 403 on an attempt that was not yet a
  refresh returns \<open>this.conversationConnectImpl(true)\<close>; anything else rejects the
  promise with the status code and the reason.
\<close>

definition connectContinuation ::
  "bool \<Rightarrow> nat \<Rightarrow> attemptOutcome \<Rightarrow> ConversationServiceAdapter \<Rightarrow> ConversationServiceAdapter" where
  "connectContinuation isUnAuthorized p outcome a =
     (case outcome of
        AuthFailed e \<Rightarrow> rejectAttempt p (AuthFetchError e) a
      | OpenResponse statusCode reason \<Rightarrow>
          (let a1 = a\<lparr>actions := actions a @ [Open]\<rparr> in
           if statusCode = 200 then
             (let c = length (connections a1);
                  a2 = a1\<lparr>connections := connections a1 @ [Connected],
                          actions := actions a1 @ (if connectionOpened a1 then [ConnectionOpened] else [])\<rparr>
              in settle p (Resolved c) a2)
           else if statusCode = 403 \<and> \<not> isUnAuthorized then
             (let (q, a2) = conversationConnectImpl True a1 in settle p (Following q) a2)
           else rejectAttempt p (UnableToContactServer statusCode reason) a1))"

subsection \<open>The receive loop: translation frames\<close>

datatype ConversationTranslatorMessageTypes = final | partial | instantMessage

text \<open>
  The parsed bodies of a frame. The message and payload classes are not among the
  sources; the fields below are the members the dispatcher reads. A member is
  \<open>undefined\<close> when the body has none of that name and \<open>null\<close> when the body says
  so. \<open>isFinal\<close> is the payload's own accessor. The three payloads of a message are
  the views of its one body that the branches of the dispatcher parse.
\<close>

record ITranslationResponsePayload =
  lang :: "jsstring nullable"
  translation :: "jsstring nullable"

record CommandResponsePayload =
  command :: "jsstring nullable"

record SpeechResponsePayload =
  speechParticipantId :: "jsstring nullable"
  speechLanguage :: "jsstring nullable"
  speechTranslations :: "ITranslationResponsePayload nullable list nullable"
  recognition :: "jsstring nullable"
  isFinal :: bool

record TextResponsePayload =
  textParticipantId :: "jsstring nullable"
  textLanguage :: "jsstring nullable"
  textTranslations :: "ITranslationResponsePayload nullable list nullable"
  originalText :: "jsstring nullable"

text \<open>
  A \<open>Translations\<close> object, given by the calls of \<open>set\<close> made on it, in order; the
  class is not among the sources.
\<close>

type_synonym Translations = "(jsstring nullable \<times> jsstring nullable) list"

record ConversationTranslationResult =
  resultParticipantId :: "jsstring nullable"
  resultTranslations :: "Translations option"
  originalLanguage :: "jsstring nullable"
  resultText :: "jsstring nullable"

record ConversationConnectionMessage =
  conversationMessageType :: "jsstring nullable"
  commandPayload :: CommandResponsePayload
  speechPayload :: SpeechResponsePayload
  textPayload :: TextResponsePayload

text \<open>
  \<open>getTranslations\<close>: \<open>undefined\<close> for an \<open>undefined\<close> argument; otherwise a new
  \<open>Translations\<close> object on which every entry of the array is set. The \<open>for ... of\<close>
  loop throws a \<open>TypeError\<close> on \<open>null\<close>, which is not iterable, and so does the read
  of \<open>translation.lang\<close> on an entry that is \<open>null\<close> or \<open>undefined\<close>.
\<close>

fun setTranslations ::
  "ITranslationResponsePayload nullable list \<Rightarrow> Translations \<Rightarrow> error + Translations" where
  "setTranslations [] translations = Inr translations"
| "setTranslations (Val t # ts) translations =
     setTranslations ts (translations @ [(lang t, translation t)])"
| "setTranslations (Undefined # ts) translations = Inl TypeError"
| "setTranslations (Null # ts) translations = Inl TypeError"

fun getTranslations ::
  "ITranslationResponsePayload nullable list nullable \<Rightarrow> error + Translations option" where
  "getTranslations Undefined = Inr None"
| "getTranslations Null = Inl TypeError"
| "getTranslations (Val serviceResultTranslations) =
     (case setTranslations serviceResultTranslations [] of
        Inl e \<Rightarrow> Inl e
      | Inr translations \<Rightarrow> Inr (Some translations))"

text \<open>
  The call of the connector's \<open>translationReceived\<close> handler with its event
  arguments. The handler is taken not to throw.
\<close>

datatype translationEvent =
  TranslationReceived ConversationTranslatorMessageTypes ConversationTranslationResult jsstring

text \<open>
  \<open>toLowerCase\<close> on the letters A to Z. The tags compared below hold no letter that a
  character outside ASCII lower-cases to, so this decides the same comparisons.
\<close>

definition toLowerCase :: "jsstring \<Rightarrow> jsstring" where
  "toLowerCase s = map (\<lambda>c. if 0x41 \<le> c \<and> c \<le> 0x5A then c + 0x20 else c) s"

definition raiseTranslationReceived ::
  "ConversationServiceAdapter \<Rightarrow> ConversationTranslatorMessageTypes \<Rightarrow>
     ConversationTranslationResult \<Rightarrow> translationEvent list" where
  "raiseTranslationReceived a kind r =
     (if translationReceived a then [TranslationReceived kind r (sessionId a)] else [])"

datatype loopStep = Done | ReadNext | Throws error

text \<open>
  One turn of \<open>receiveConversationMessageOverride\<close> after \<open>connection.read()\<close> has
  delivered a message (or none): the translation-received events it raises, and
  whether the loop resolves, reads on, or ends the turn with an exception. The
  statements that can throw outside a \<open>try\<close> block are the calls of \<open>toLowerCase\<close> on
  the message type and on the command name, the calls of \<open>getTranslations\<close>, and the
  read of \<open>length\<close> on a \<open>null\<close> text; after an exception nothing more is raised and
  no further read is issued. Frames of the command class raise participant and room
  events only, each inside its own \<open>try\<close> block; those are not listed here.
\<close>

definition receiveConversationMessageOverride ::
  "ConversationServiceAdapter \<Rightarrow> ConversationConnectionMessage option \<Rightarrow>
     translationEvent list \<times> loopStep" where
  "receiveConversationMessageOverride a message =
     (let disposed = privConversationIsDisposed a;
          terminate = (\<not> privConversationIsDisposed a \<and> terminateMessageLoop a)
      in
      if disposed \<or> terminate then ([], Done)
      else case message of
        None \<Rightarrow> ([], ReadNext)
      | Some m \<Rightarrow>
         (case conversationMessageType m of
            Undefined \<Rightarrow> ([], Throws TypeError)
          | Null \<Rightarrow> ([], Throws TypeError)
          | Val messageType \<Rightarrow>
         (let tag = toLowerCase messageType in
          if tag = js ''info'' \<or> tag = js ''participant_command'' \<or> tag = js ''command'' then
            (case command (commandPayload m) of
               Undefined \<Rightarrow> ([], Throws TypeError)
             | Null \<Rightarrow> ([], Throws TypeError)
             | Val c \<Rightarrow> ([], ReadNext))
          else if tag = js ''partial'' \<or> tag = js ''final'' then
            (let p = speechPayload m in
             case getTranslations (speechTranslations p) of
               Inl e \<Rightarrow> ([], Throws e)
             | Inr translations \<Rightarrow>
            (let speechResult = \<lparr>resultParticipantId = speechParticipantId p,
                                 resultTranslations = translations,
                                 originalLanguage = speechLanguage p,
                                 resultText = recognition p\<rparr>
             in
             if isFinal p then
               (case resultText speechResult of
                  Undefined \<Rightarrow> ([], ReadNext)
                | Null \<Rightarrow> ([], Throws TypeError)
                | Val t \<Rightarrow>
                    if length t > 0
                    then (raiseTranslationReceived a final speechResult, ReadNext)
                    else ([], ReadNext))
             else (raiseTranslationReceived a partial speechResult, ReadNext)))
          else if tag = js ''translated_message'' then
            (let p = textPayload m in
             case getTranslations (textTranslations p) of
               Inl e \<Rightarrow> ([], Throws e)
             | Inr translations \<Rightarrow>
            (let textResult = \<lparr>resultParticipantId = textParticipantId p,
                               resultTranslations = translations,
                               originalLanguage = textLanguage p,
                               resultText = originalText p\<rparr>
             in (raiseTranslationReceived a instantMessage textResult, ReadNext)))
          else ([], ReadNext))))"

section \<open>Example states\<close>

text \<open>
  A conversation with two participants, Ann (the host) and Bob: once as Bob sees it
  and once as Ann sees it, both connected and ready.
\<close>

definition ann :: IInternalParticipant where
  "ann = \<lparr>id' = Some (js ''A''), displayName = Some (js ''Ann''),
           isHost = Some True, isMuted = Some False\<rparr>"

definition bob :: IInternalParticipant where
  "bob = \<lparr>id' = Some (js ''B''), displayName = Some (js ''Bob''),
           isHost = Some False, isMuted = Some False\<rparr>"

definition conversationOf :: "jsstring \<Rightarrow> ConversationImpl" where
  "conversationOf localId =
     \<lparr>privConfig = Some [], privProperties = Some [], privLanguage = Some (js ''en-US''),
      privToken = None, privIsDisposed = False,
      privRoom = Val \<lparr>roomId = js ''room'', token = Val (js ''token''), participantId = localId\<rparr>,
      privManager = None,
      privConversationRecognizer = Some \<lparr>recognizerIsDisposed = False\<rparr>,
      privConversationRecognizerConnection = Some Connection,
      privIsConnected = True,
      privParticipants = Some \<lparr>participants = [ann, bob], meId = Some localId\<rparr>,
      privIsReady = True\<rparr>"

definition guestConversation :: ConversationImpl where
  "guestConversation = conversationOf (js ''B'')"

definition hostConversation :: ConversationImpl where
  "hostConversation = conversationOf (js ''A'')"

definition bothCallbacks :: callbacks where
  "bothCallbacks = \<lparr>cb = True, err = True\<rparr>"

text \<open>An adapter that has not connected yet, with both handlers of the connector set.\<close>

definition idleAdapter :: ConversationServiceAdapter where
  "idleAdapter =
     \<lparr>privConversationIsDisposed = False, terminateMessageLoop = False,
      sessionId = js ''session'', translationReceived = True, connectionOpened = True,
      privConversationConnectionPromise = None, promises = [], connections = [],
      actions = []\<rparr>"



text \<open>A manager and settings for creating a conversation.\<close>

definition exampleManager :: ConversationManager where
  "exampleManager =
     \<lparr>privHost = Val (js ''host.example''), privApiVersion = js ''2.0'',
      privRestPath = js ''/capito/room'', clientAppId = js ''app'',
      defaultLanguageCode = Val (js ''en-US'')\<rparr>"

text \<open>
  Ann's view with her own muted flag set, and a view whose local id is in no entry
  of the registry.
\<close>

definition mutedHostRegistry :: InternalParticipants where
  "mutedHostRegistry = \<lparr>participants = [ann\<lparr>isMuted := Some True\<rparr>, bob], meId = Some (js ''A'')\<rparr>"

definition strangerRegistry :: InternalParticipants where
  "strangerRegistry = \<lparr>participants = [ann, bob], meId = Some (js ''C'')\<rparr>"

text \<open>
  The first connect of an idle adapter, and the adapter after the socket has answered
  that attempt's open with 403, with 500, and with 200 followed by a disconnect.
\<close>

definition firstAttempt :: "nat \<times> ConversationServiceAdapter" where
  "firstAttempt = conversationConnectImpl False idleAdapter"

definition afterForbidden :: ConversationServiceAdapter where
  "afterForbidden =
     connectContinuation False (fst firstAttempt) (OpenResponse 403 (js ''Forbidden''))
       (snd firstAttempt)"

definition afterServerError :: ConversationServiceAdapter where
  "afterServerError =
     connectContinuation False (fst firstAttempt) (OpenResponse 500 (js ''Error''))
       (snd firstAttempt)"

definition afterDisconnect :: ConversationServiceAdapter where
  "afterDisconnect =
     (connectContinuation False (fst firstAttempt) (OpenResponse 200 (js ''OK''))
        (snd firstAttempt))\<lparr>connections := [Disconnected]\<rparr>"

section \<open>Theorems\<close>

subsection \<open>The constructor\<close>

lemma map_of_setProperty_hit:
  "key \<in> fst ` set props \<Longrightarrow>
   map_of (map (\<lambda>(k, w). if k = key then (k, v) else (k, w)) props) key = Some v"
proof (induction props)
  case Nil
  then show ?case by simp
next
  case (Cons a props)
  obtain k w where a: "a = (k, w)" by (cases a)
  show ?case
  proof (cases "k = key")
    case True
    then show ?thesis using a by simp
  next
    case False
    with Cons a show ?thesis by simp
  qed
qed

lemma map_of_setProperty: "map_of (setProperty props key v) key = Some v"
proof (cases "key \<in> fst ` set props")
  case True
  then show ?thesis by (simp add: setProperty_def map_of_setProperty_hit)
next
  case False
  then have "map_of props key = None" by (simp add: map_of_eq_None_iff)
  with False show ?thesis by (simp add: setProperty_def map_add_def)
qed

lemma getProperty_setProperty: "getProperty (setProperty props key v) key def = v"
  by (simp add: getProperty_def map_of_setProperty)

text \<open>
  C9. In the constructor, a nickname that is \<open>undefined\<close>, \<open>null\<close>, of length at most
  one or of length greater than fifty is stored back into the config as the literal
  \<open>"Host"\<close>; every nickname of length two through fifty is stored back unchanged.
\<close>

theorem C9_constructor_nickname:
  "getProperty (constructorNickname cfg) ConversationTranslator_Name Undefined =
     (case getProperty cfg ConversationTranslator_Name Undefined of
        Undefined \<Rightarrow> Val (js ''Host'')
      | Null \<Rightarrow> Val (js ''Host'')
      | Val n \<Rightarrow> if 2 \<le> length n \<and> length n \<le> 50 then Val n else Val (js ''Host''))"
  by (simp add: constructorNickname_def getProperty_setProperty checkNickname_def
        split: nullable.splits)

subsection \<open>createOrJoin\<close>

lemma trim_Nil_iff: "trim s = [] \<longleftrightarrow> (\<forall>c\<in>set s. isWhiteSpace c)"
proof
  assume "trim s = []"
  then have "dropWhile isWhiteSpace (rev (dropWhile isWhiteSpace s)) = []"
    by (simp add: trim_def)
  then have "\<forall>c\<in>set (dropWhile isWhiteSpace s). isWhiteSpace c"
    by (simp add: dropWhile_eq_Nil_conv)
  then have "dropWhile isWhiteSpace s = []"
    by (metis hd_dropWhile hd_in_set)
  then show "\<forall>c\<in>set s. isWhiteSpace c"
    by (simp add: dropWhile_eq_Nil_conv)
next
  assume "\<forall>c\<in>set s. isWhiteSpace c"
  then have d: "dropWhile isWhiteSpace s = []"
    by (simp add: dropWhile_eq_Nil_conv)
  show "trim s = []" unfolding trim_def d by simp
qed

lemma throwIfNullOrWhitespace_fails:
  "isNullOrWhitespace v \<Longrightarrow>
   \<exists>e. throwIfNullOrWhitespace v name = Inl e \<and> isConfigurationError e"
  by (cases v) auto

lemma throwIfNullOrWhitespace_passes:
  "\<not> isNullOrWhitespace v \<Longrightarrow> throwIfNullOrWhitespace v name = Inr ()"
  by (cases v) auto

lemma createOrJoin_request_fails:
  assumes "isNullOrWhitespace (getProperty props SpeechServiceConnection_RecoLanguage (defaultLanguageCode m))
         \<or> isNullOrWhitespace (getProperty props ConversationTranslator_Name Undefined)
         \<or> isNullOrWhitespace (getProperty props ConversationTranslator_Host (privHost m))
         \<or> (conversationCode = Undefined
             \<and> getProperty props SpeechServiceConnection_Region Undefined \<in> {Undefined, Null})"
  shows "\<exists>e. createOrJoin_request m (Val props) conversationCode = Inl e \<and> isConfigurationError e"
proof -
  let ?lang = "getProperty props SpeechServiceConnection_RecoLanguage (defaultLanguageCode m)"
  let ?nick = "getProperty props ConversationTranslator_Name Undefined"
  let ?host = "getProperty props ConversationTranslator_Host (privHost m)"
  let ?region = "getProperty props SpeechServiceConnection_Region Undefined"
  show ?thesis
  proof (cases "isNullOrWhitespace ?lang")
    case True
    from throwIfNullOrWhitespace_fails [OF True, of "''languageCode''"]
    show ?thesis by (auto simp: createOrJoin_request_def)
  next
    case lang: False
    note l = throwIfNullOrWhitespace_passes [OF lang, of "''languageCode''"]
    show ?thesis
    proof (cases "isNullOrWhitespace ?nick")
      case True
      from throwIfNullOrWhitespace_fails [OF True, of "''nickname''"] l
      show ?thesis by (auto simp: createOrJoin_request_def)
    next
      case nick: False
      note n = throwIfNullOrWhitespace_passes [OF nick, of "''nickname''"]
      show ?thesis
      proof (cases "isNullOrWhitespace ?host")
        case True
        from throwIfNullOrWhitespace_fails [OF True, of "''endpointHost''"] l n
        show ?thesis by (auto simp: createOrJoin_request_def)
      next
        case host: False
        note h = throwIfNullOrWhitespace_passes [OF host, of "''endpointHost''"]
        from assms lang nick host
        have c: "conversationCode = Undefined" and r: "?region = Undefined \<or> ?region = Null"
          by auto
        from r show ?thesis
        proof
          assume "?region = Undefined"
          with l n h c show ?thesis by (simp add: createOrJoin_request_def)
        next
          assume "?region = Null"
          with l n h c show ?thesis by (simp add: createOrJoin_request_def)
        qed
      qed
    qed
  qed
qed

text \<open>
  C7. When the language, the nickname or the endpoint host resolves to an absent, empty
  or white-space value, or when a conversation is created (no room code) and the region
  is absent, \<open>createOrJoin\<close> fails with a configuration error: the contract's
  exception is what the failure continuation receives, and no request is issued,
  whether or not a failure continuation was supplied.
\<close>

theorem C7_createOrJoin_configuration_error:
  assumes "isNullOrWhitespace (getProperty props SpeechServiceConnection_RecoLanguage (defaultLanguageCode m))
         \<or> isNullOrWhitespace (getProperty props ConversationTranslator_Name Undefined)
         \<or> isNullOrWhitespace (getProperty props ConversationTranslator_Host (privHost m))
         \<or> (conversationCode = Undefined
             \<and> getProperty props SpeechServiceConnection_Region Undefined \<in> {Undefined, Null})"
  shows "\<exists>e. isConfigurationError e
           \<and> createOrJoin_request m (Val props) conversationCode = Inl e
           \<and> createOrJoin m (Val props) conversationCode True = [ErrorCallback e]
           \<and> createOrJoin m (Val props) conversationCode False = []"
proof -
  from createOrJoin_request_fails [OF assms]
  obtain e where "createOrJoin_request m (Val props) conversationCode = Inl e"
    and "isConfigurationError e" by blast
  then show ?thesis by (auto simp: createOrJoin_def)
qed

theorem C7_createOrJoin_configuration_error_witness:
  "createOrJoin exampleManager (Val [(ConversationTranslator_Name, Val (js ''  ''))]) Undefined True
     = [ErrorCallback (NullOrWhitespace ''nickname'')]
   \<and> createOrJoin exampleManager
        (Val [(ConversationTranslator_Name, Val (js ''Bob'')),
              (SpeechServiceConnection_Key, Val (js ''key''))]) Undefined True
     = [ErrorCallback (NullOrUndefined ''authInvalidSubscriptionRegion'')]"
proof -
  let ?blank = "[(ConversationTranslator_Name, Val (js ''  ''))]"
  let ?noRegion = "[(ConversationTranslator_Name, Val (js ''Bob'')),
                    (SpeechServiceConnection_Key, Val (js ''key''))]"
  have w: "isNullOrWhitespace (getProperty ?blank ConversationTranslator_Name Undefined)"
    by (simp add: getProperty_def js_def trim_def isWhiteSpace_def)
  have r: "getProperty ?noRegion SpeechServiceConnection_Region Undefined \<in> {Undefined, Null}"
    by (simp add: getProperty_def)
  from C7_createOrJoin_configuration_error [of ?blank exampleManager Undefined] w
  obtain e where e: "createOrJoin_request exampleManager (Val ?blank) Undefined = Inl e"
    and "createOrJoin exampleManager (Val ?blank) Undefined True = [ErrorCallback e]"
    by blast
  moreover have "createOrJoin_request exampleManager (Val ?blank) Undefined
      = Inl (NullOrWhitespace ''nickname'')"
    by (simp add: createOrJoin_request_def getProperty_def exampleManager_def js_def
          trim_def isWhiteSpace_def)
  ultimately have a: "createOrJoin exampleManager (Val ?blank) Undefined True
      = [ErrorCallback (NullOrWhitespace ''nickname'')]" by simp
  from C7_createOrJoin_configuration_error [of ?noRegion exampleManager Undefined] r
  obtain e' where "createOrJoin_request exampleManager (Val ?noRegion) Undefined = Inl e'"
    and "createOrJoin exampleManager (Val ?noRegion) Undefined True = [ErrorCallback e']"
    by blast
  moreover have "createOrJoin_request exampleManager (Val ?noRegion) Undefined
      = Inl (NullOrUndefined ''authInvalidSubscriptionRegion'')"
    by (simp add: createOrJoin_request_def getProperty_def exampleManager_def js_def
          trim_def isWhiteSpace_def)
  ultimately have b: "createOrJoin exampleManager (Val ?noRegion) Undefined True
      = [ErrorCallback (NullOrUndefined ''authInvalidSubscriptionRegion'')]" by simp
  from a b show ?thesis by simp
qed

subsection \<open>The facade: dispose, gates and commands\<close>

lemma dispose_unchanged: "dispose c = (c, [])"
  by (simp add: dispose_def isDisposed_property_def)

text \<open>
  C1. Calling \<open>dispose\<close> a second time is a no-op: the call returns without an
  exception, the conversation is as the first call left it, and nothing is closed or
  released by the second call. The guard of \<open>dispose\<close> tests the method
  \<open>isDisposed\<close> itself, which is truthy, so this holds of every call of \<open>dispose\<close>.
\<close>

theorem C1_dispose_twice: "dispose (fst (dispose c)) = (fst (dispose c), [])"
  by (simp add: dispose_def isDisposed_property_def)

lemma me_host: "me \<lparr>participants = [ann, bob], meId = Some (js ''A'')\<rparr> = Some ann"
  by (simp add: me_def getParticipant_def ann_def bob_def js_def)

lemma me_guest: "me \<lparr>participants = [ann, bob], meId = Some (js ''B'')\<rparr> = Some bob"
  by (simp add: me_def getParticipant_def ann_def bob_def js_def)

lemma canSendAsHost_host: "canSendAsHost hostConversation = Inr True"
  by (simp add: canSendAsHost_def hostConversation_def conversationOf_def me_host)
     (simp add: ann_def)

lemma canSendAsHost_guest: "canSendAsHost guestConversation = Inr False"
  by (simp add: canSendAsHost_def guestConversation_def conversationOf_def me_guest)
     (simp add: bob_def)

lemma canSend_host: "canSend hostConversation = Inr True"
  by (simp add: canSend_def hostConversation_def conversationOf_def me_host)
     (simp add: ann_def)

lemma lock_after_failed_gate:
  assumes "\<not> privIsDisposed c" and "privConversationRecognizer c = Some r"
    and "\<not> recognizerIsDisposed r" and "privRoom c = Val room"
    and "canSendAsHost c = Inr False"
  shows "lockConversationAsync k c =
           handleError (PermissionDeniedConversation ''lock'') k
           @ Transmit (SetLockState True) # handleCallback k"
  using assms
  by (simp add: lockConversationAsync_def throwIfDisposed_def sendLockRequest_def
        sendRequest_def)

lemma lock_after_passed_gate:
  assumes "\<not> privIsDisposed c" and "privConversationRecognizer c = Some r"
    and "\<not> recognizerIsDisposed r" and "privRoom c = Val room"
    and "canSendAsHost c = Inr True"
  shows "lockConversationAsync k c = Transmit (SetLockState True) # handleCallback k"
  using assms
  by (simp add: lockConversationAsync_def throwIfDisposed_def sendLockRequest_def
        sendRequest_def)

text \<open>
  C3. The specification has \<open>lockConversationAsync\<close> of a participant who is not the
  host call the failure continuation with a permission error and transmit no lock
  frame. In Bob's connected conversation the failure continuation is called with the
  permission error, and then the lock frame is transmitted and the success continuation
  called as well: \<open>handleError\<close> returns and the method goes on to \<open>sendLockRequest\<close>.
\<close>

theorem C3_lock_as_guest_transmits:
  "lockConversationAsync bothCallbacks guestConversation =
     [Failure (PermissionDeniedConversation ''lock''), Transmit (SetLockState True), Success]"
proof -
  have "lockConversationAsync bothCallbacks guestConversation =
          handleError (PermissionDeniedConversation ''lock'') bothCallbacks
          @ Transmit (SetLockState True) # handleCallback bothCallbacks"
    by (rule lock_after_failed_gate
          [where r = "\<lparr>recognizerIsDisposed = False\<rparr>", OF _ _ _ _ canSendAsHost_guest])
       (simp_all add: guestConversation_def conversationOf_def)
  then show ?thesis by (simp add: handleError_def handleCallback_def bothCallbacks_def)
qed

lemma text_after_failed_length_check:
  assumes "\<not> privIsDisposed c" and "privConversationRecognizer c = Some r"
    and "\<not> recognizerIsDisposed r" and "\<not> isNullOrWhitespace (Val message)"
    and "privRoom c = Val room" and "canSend c = Inr True"
    and "length message > textMessageMaxLength"
  shows "sendTextMessageAsync textMessageMaxLength (Val message) k c =
           handleError (InvalidArgs ''message length'') k
           @ Transmit (InstantMessage message) # handleCallback k"
  using assms
  by (simp add: sendTextMessageAsync_def throwIfDisposed_def sendMessageRequest_def
        sendRequest_def)

text \<open>
  C4. The specification has \<open>sendTextMessageAsync\<close> with a message longer than the
  maximum call the failure continuation with an argument error and transmit
  nothing. With a maximum of 1000 and a message of 1001 letters the failure
  continuation is called with the argument error, and then the message is transmitted
  and the success continuation called as well.
\<close>

theorem C4_long_message_transmits:
  "sendTextMessageAsync 1000 (Val (replicate 1001 0x61)) bothCallbacks hostConversation =
     [Failure (InvalidArgs ''message length''),
      Transmit (InstantMessage (replicate 1001 0x61)), Success]"
proof -
  have "\<not> (\<forall>c\<in>set (replicate 1001 (0x61 :: 16 word)). isWhiteSpace c)"
    by (simp add: isWhiteSpace_def)
  then have w: "\<not> isNullOrWhitespace (Val (replicate 1001 0x61))"
    by (simp only: isNullOrWhitespace.simps trim_Nil_iff not_False_eq_True)
  have "sendTextMessageAsync 1000 (Val (replicate 1001 0x61)) bothCallbacks hostConversation =
           handleError (InvalidArgs ''message length'') bothCallbacks
           @ Transmit (InstantMessage (replicate 1001 0x61)) # handleCallback bothCallbacks"
    by (rule text_after_failed_length_check
          [where r = "\<lparr>recognizerIsDisposed = False\<rparr>", OF _ _ _ w _ canSend_host])
       (simp_all add: hostConversation_def conversationOf_def)
  then show ?thesis by (simp add: handleError_def handleCallback_def bothCallbacks_def)
qed

text \<open>
  C6. The specification has every command method fail fast with a disposed-object
  error, and do nothing else, once \<open>dispose\<close> has been called. After \<open>dispose\<close> on Ann's connected
  conversation the disposal flag is still unset, and \<open>lockConversationAsync\<close> transmits
  the lock frame and calls the success continuation, with no error.
\<close>

theorem C6_commands_after_dispose:
  "\<not> privIsDisposed (fst (dispose hostConversation))
   \<and> lockConversationAsync bothCallbacks (fst (dispose hostConversation)) =
       [Transmit (SetLockState True), Success]"
proof -
  have d: "fst (dispose hostConversation) = hostConversation"
    by (simp add: dispose_unchanged)
  have "lockConversationAsync bothCallbacks hostConversation =
          Transmit (SetLockState True) # handleCallback bothCallbacks"
    by (rule lock_after_passed_gate
          [where r = "\<lparr>recognizerIsDisposed = False\<rparr>", OF _ _ _ _ canSendAsHost_host])
       (simp_all add: hostConversation_def conversationOf_def)
  then have "lockConversationAsync bothCallbacks hostConversation =
          [Transmit (SetLockState True), Success]"
    by (simp add: handleCallback_def bothCallbacks_def)
  moreover have "\<not> privIsDisposed hostConversation"
    by (simp add: hostConversation_def conversationOf_def)
  ultimately show ?thesis by (simp add: d)
qed

text \<open>
  C10. When the local participant is in the registry with the host flag true,
  \<open>isMutedByHost\<close> returns \<open>false\<close> whatever the participant's muted flag is; when
  the local participant is not in the registry, it returns \<open>undefined\<close>, so not \<open>true\<close>.
\<close>

theorem C10_isMutedByHost:
  assumes "privParticipants c = Some ps"
  shows "(\<forall>p. me ps = Some p \<and> isHost p = Some True \<longrightarrow> isMutedByHost c = Inr (Some False))
       \<and> (me ps = None \<longrightarrow> isMutedByHost c = Inr None)"
  using assms by (simp add: isMutedByHost_def)

theorem C10_isMutedByHost_witness:
  "isMutedByHost (hostConversation\<lparr>privParticipants := Some mutedHostRegistry\<rparr>) = Inr (Some False)
   \<and> isMutedByHost (hostConversation\<lparr>privParticipants := Some strangerRegistry\<rparr>) = Inr None"
proof -
  have m: "me mutedHostRegistry = Some (ann\<lparr>isMuted := Some True\<rparr>)"
    by (simp add: me_def getParticipant_def mutedHostRegistry_def ann_def js_def)
  have h: "isHost (ann\<lparr>isMuted := Some True\<rparr>) = Some True"
    by (simp add: ann_def)
  have s: "me strangerRegistry = None"
    by (simp add: me_def getParticipant_def strangerRegistry_def ann_def bob_def js_def)
  have "isMutedByHost (hostConversation\<lparr>privParticipants := Some mutedHostRegistry\<rparr>)
          = Inr (Some False)"
    using C10_isMutedByHost [of "hostConversation\<lparr>privParticipants := Some mutedHostRegistry\<rparr>"
        mutedHostRegistry] m h by simp
  moreover have "isMutedByHost (hostConversation\<lparr>privParticipants := Some strangerRegistry\<rparr>)
          = Inr None"
    using C10_isMutedByHost [of "hostConversation\<lparr>privParticipants := Some strangerRegistry\<rparr>"
        strangerRegistry] s by simp
  ultimately show ?thesis by simp
qed

subsection \<open>The adapter: connecting\<close>

declare conversationConnectImpl.simps [simp del]

lemma follow_completed_in_range: "isCompleted (follow n ps p) \<Longrightarrow> p < length ps"
  by (cases n) (auto split: if_splits)

lemma follow_self: "p < length ps \<Longrightarrow> ps ! p = Following p \<Longrightarrow> follow n ps p = Pending"
  by (induction n) auto

lemma conversationConnectImpl_fresh:
  "privConversationConnectionPromise a = None \<Longrightarrow>
   conversationConnectImpl u a =
     (length (promises a),
      a\<lparr>actions := actions a @ [if u then FetchOnExpiry else Fetch, MessageLoopStarted],
        promises := promises a @ [Pending],
        privConversationConnectionPromise := Some (length (promises a)),
        terminateMessageLoop := False\<rparr>)"
  by (subst conversationConnectImpl.simps) (simp add: startMessageLoop_def Let_def)

lemma conversationConnectImpl_coalesced:
  "privConversationConnectionPromise a = Some p \<Longrightarrow> \<not> knownFailedOrDisconnected a p \<Longrightarrow>
   conversationConnectImpl u a = (p, a)"
  by (subst conversationConnectImpl.simps) simp

lemma conversationConnectImpl_discarded:
  "privConversationConnectionPromise a = Some p \<Longrightarrow> knownFailedOrDisconnected a p \<Longrightarrow>
   conversationConnectImpl u a =
     (length (promises a),
      a\<lparr>actions := actions a @ [Fetch, MessageLoopStarted],
        promises := promises a @ [Pending],
        privConversationConnectionPromise := Some (length (promises a)),
        terminateMessageLoop := False\<rparr>)"
  by (subst conversationConnectImpl.simps) (simp add: conversationConnectImpl_fresh)

text \<open>
  C8. When a connection promise is stored and it is not known to have failed or
  disconnected (it is pending, or resolved with a connection that is not disconnected),
  a further call of \<open>conversationConnectImpl\<close> returns that same promise and changes
  nothing: no credential is fetched and no loop is started. When the stored promise has
  failed, or its connection has disconnected, it is discarded and a fresh attempt
  starts: a credential is fetched, a new pending promise is stored and returned, and
  the receive loop is started again.
\<close>

theorem C8_connect_coalescing:
  assumes "privConversationConnectionPromise a = Some p"
  shows "(\<not> knownFailedOrDisconnected a p \<longrightarrow> conversationConnectImpl u a = (p, a))
       \<and> (knownFailedOrDisconnected a p \<longrightarrow>
            p < length (promises a)
            \<and> conversationConnectImpl u a =
                (length (promises a),
                 a\<lparr>actions := actions a @ [Fetch, MessageLoopStarted],
                   promises := promises a @ [Pending],
                   privConversationConnectionPromise := Some (length (promises a)),
                   terminateMessageLoop := False\<rparr>))"
proof (intro conjI impI)
  assume "\<not> knownFailedOrDisconnected a p"
  with assms show "conversationConnectImpl u a = (p, a)"
    by (rule conversationConnectImpl_coalesced)
next
  assume "knownFailedOrDisconnected a p"
  then have "isCompleted (follow (length (promises a)) (promises a) p)"
    by (simp add: knownFailedOrDisconnected_def result_def)
  then show "p < length (promises a)" by (rule follow_completed_in_range)
next
  assume "knownFailedOrDisconnected a p"
  with assms show "conversationConnectImpl u a =
      (length (promises a),
       a\<lparr>actions := actions a @ [Fetch, MessageLoopStarted],
         promises := promises a @ [Pending],
         privConversationConnectionPromise := Some (length (promises a)),
         terminateMessageLoop := False\<rparr>)"
    by (rule conversationConnectImpl_discarded)
qed

lemma firstAttempt_eq:
  "firstAttempt =
     (0, idleAdapter\<lparr>actions := [Fetch, MessageLoopStarted], promises := [Pending],
                     privConversationConnectionPromise := Some 0\<rparr>)"
  by (simp add: firstAttempt_def conversationConnectImpl_fresh idleAdapter_def)

lemma afterForbidden_eq:
  "afterForbidden =
     idleAdapter\<lparr>actions := [Fetch, MessageLoopStarted, Open], promises := [Following 0],
                 privConversationConnectionPromise := Some 0\<rparr>"
  apply (simp add: afterForbidden_def firstAttempt_eq connectContinuation_def)
  apply (subst conversationConnectImpl_coalesced [where p = 0])
    apply (simp_all add: idleAdapter_def knownFailedOrDisconnected_def result_def settle_def)
  done

text \<open>
  C2. The specification has a 403 open response on the first attempt lead to exactly
  one retry of the connect sequence with a forced credential refresh. At the first
  connect of an idle adapter answered by 403, the call \<open>conversationConnectImpl(true)\<close>
  made by the continuation finds the promise of the running attempt stored and not
  completed, and returns it: the only credential call is the first \<open>fetch\<close>,
  \<open>fetchOnExpiry\<close> is never called, no second socket is opened, and the attempt's
  promise follows itself, so it never completes.
\<close>

theorem C2_first_403_is_not_retried:
  "actions afterForbidden = [Fetch, MessageLoopStarted, Open]
   \<and> FetchOnExpiry \<notin> set (actions afterForbidden)
   \<and> promises afterForbidden = [Following 0]
   \<and> \<not> isCompleted (result afterForbidden 0)"
  by (simp add: afterForbidden_eq idleAdapter_def result_def)

lemma afterServerError_eq:
  "afterServerError =
     idleAdapter\<lparr>actions := [Fetch, MessageLoopStarted, Open],
                 promises := [Rejected (UnableToContactServer 500 (js ''Error''))],
                 privConversationConnectionPromise := Some 0,
                 terminateMessageLoop := True\<rparr>"
  by (simp add: afterServerError_def firstAttempt_eq connectContinuation_def rejectAttempt_def
        settle_def idleAdapter_def)

lemma afterDisconnect_eq:
  "afterDisconnect =
     idleAdapter\<lparr>actions := [Fetch, MessageLoopStarted, Open, ConnectionOpened],
                 promises := [Resolved 0], connections := [Disconnected],
                 privConversationConnectionPromise := Some 0\<rparr>"
  by (simp add: afterDisconnect_def firstAttempt_eq connectContinuation_def settle_def
        idleAdapter_def)

theorem C8_connect_coalescing_witness:
  "conversationConnectImpl False (snd firstAttempt) = (0, snd firstAttempt)
   \<and> fst (conversationConnectImpl False afterServerError) = 1
   \<and> actions (snd (conversationConnectImpl False afterServerError)) =
       [Fetch, MessageLoopStarted, Open, Fetch, MessageLoopStarted]
   \<and> fst (conversationConnectImpl False afterDisconnect) = 1
   \<and> actions (snd (conversationConnectImpl False afterDisconnect)) =
       [Fetch, MessageLoopStarted, Open, ConnectionOpened, Fetch, MessageLoopStarted]"
proof -
  have p: "privConversationConnectionPromise (snd firstAttempt) = Some 0"
    and np: "\<not> knownFailedOrDisconnected (snd firstAttempt) 0"
    by (simp_all add: firstAttempt_eq idleAdapter_def knownFailedOrDisconnected_def result_def)
  have e: "privConversationConnectionPromise afterServerError = Some 0"
    and ke: "knownFailedOrDisconnected afterServerError 0"
    by (simp_all add: afterServerError_eq idleAdapter_def knownFailedOrDisconnected_def
          result_def)
  have d: "privConversationConnectionPromise afterDisconnect = Some 0"
    and kd: "knownFailedOrDisconnected afterDisconnect 0"
    by (simp_all add: afterDisconnect_eq idleAdapter_def knownFailedOrDisconnected_def
          result_def resultState_def)
  from C8_connect_coalescing [OF p, of False] np
  have 1: "conversationConnectImpl False (snd firstAttempt) = (0, snd firstAttempt)" by simp
  from C8_connect_coalescing [OF e, of False] ke
  have 2: "fst (conversationConnectImpl False afterServerError) = 1
     \<and> actions (snd (conversationConnectImpl False afterServerError)) =
       [Fetch, MessageLoopStarted, Open, Fetch, MessageLoopStarted]"
    by (simp add: afterServerError_eq idleAdapter_def)
  from C8_connect_coalescing [OF d, of False] kd
  have 3: "fst (conversationConnectImpl False afterDisconnect) = 1
     \<and> actions (snd (conversationConnectImpl False afterDisconnect)) =
       [Fetch, MessageLoopStarted, Open, ConnectionOpened, Fetch, MessageLoopStarted]"
    by (simp add: afterDisconnect_eq idleAdapter_def)
  from 1 2 3 show ?thesis by simp
qed

lemma first_403_never_retried:
  assumes "privConversationConnectionPromise a = None"
    and "conversationConnectImpl False a = (p, a1)"
    and "connectContinuation False p (OpenResponse 403 reason) a1 = a2"
  shows "actions a2 = actions a @ [Fetch, MessageLoopStarted, Open]
       \<and> promises a2 = promises a @ [Following p]
       \<and> result a2 p = Pending"
proof -
  from assms(1,2) have p: "p = length (promises a)"
    and a1: "a1 = a\<lparr>actions := actions a @ [Fetch, MessageLoopStarted],
        promises := promises a @ [Pending],
        privConversationConnectionPromise := Some (length (promises a)),
        terminateMessageLoop := False\<rparr>"
    by (auto simp: conversationConnectImpl_fresh)
  let ?b = "a1\<lparr>actions := actions a1 @ [Open]\<rparr>"
  have "\<not> knownFailedOrDisconnected ?b p"
    by (simp add: knownFailedOrDisconnected_def result_def a1 p nth_append)
  moreover have "privConversationConnectionPromise ?b = Some p" by (simp add: a1 p)
  ultimately have "conversationConnectImpl True ?b = (p, ?b)"
    by (rule conversationConnectImpl_coalesced [rotated])
  then have a2: "a2 = settle p (Following p) ?b"
    using assms(3) by (simp add: connectContinuation_def)
  then have "promises a2 = promises a @ [Following p]" and "actions a2 = actions a @ [Fetch, MessageLoopStarted, Open]"
    by (simp_all add: settle_def a1 p)
  moreover from this have "result a2 p = Pending"
    unfolding result_def by (intro follow_self) (simp_all add: p)
  ultimately show ?thesis by simp
qed

lemma refreshed_403_is_terminal:
  "connectContinuation True p (OpenResponse 403 reason) a =
     rejectAttempt p (UnableToContactServer 403 reason) (a\<lparr>actions := actions a @ [Open]\<rparr>)"
  by (simp add: connectContinuation_def)

subsection \<open>The adapter: translation frames\<close>

lemma speech_tag_distinct:
  "js ''partial'' \<noteq> js ''info''" "js ''partial'' \<noteq> js ''participant_command''"
  "js ''partial'' \<noteq> js ''command''" "js ''final'' \<noteq> js ''info''"
  "js ''final'' \<noteq> js ''participant_command''" "js ''final'' \<noteq> js ''command''"
  by (simp_all add: js_def)




lemma final_with_text_is_raised:
  assumes "\<not> privConversationIsDisposed a" and "\<not> terminateMessageLoop a"
    and "conversationMessageType m = Val messageType"
    and "toLowerCase messageType = js ''final''"
    and "getTranslations (speechTranslations (speechPayload m)) = Inr translations"
    and "isFinal (speechPayload m)" and "recognition (speechPayload m) = Val t" and "t \<noteq> []"
    and "translationReceived a"
  shows "receiveConversationMessageOverride a (Some m) =
           ([TranslationReceived final
              \<lparr>resultParticipantId = speechParticipantId (speechPayload m),
               resultTranslations = translations,
               originalLanguage = speechLanguage (speechPayload m),
               resultText = Val t\<rparr> (sessionId a)], ReadNext)"
  using assms
  by (simp add: receiveConversationMessageOverride_def raiseTranslationReceived_def
        speech_tag_distinct Let_def)

lemma translations_that_throw:
  assumes "\<not> privConversationIsDisposed a" and "\<not> terminateMessageLoop a"
    and "conversationMessageType m = Val messageType"
    and "toLowerCase messageType = js ''partial'' \<or> toLowerCase messageType = js ''final''"
    and "getTranslations (speechTranslations (speechPayload m)) = Inl e"
  shows "receiveConversationMessageOverride a (Some m) = ([], Throws e)"
  using assms
  by (auto simp: receiveConversationMessageOverride_def speech_tag_distinct
        speech_tag_distinct [symmetric] Let_def)

end
